theory Spec2Isabelle
  imports Complex_Main "HOL-Library.Multiset"
begin

section \<open>Ledger store: the tables of the SQLite schema\<close>

text \<open>
  The model follows \<^verbatim>\<open>package database\<close> (the store) and \<^verbatim>\<open>package handler\<close> (the
  business logic). Every table of \<^verbatim>\<open>createTables\<close> is a list of rows in insertion
  order. Go's \<^verbatim>\<open>float64\<close> amounts are modelled as exact reals: rounding is not
  modelled. Go's \<^verbatim>\<open>int\<close> is 64 bits wide on the build target (amd64); values are
  HOL integers and the one multiplication that can overflow is wrapped explicitly.
  Timestamps (\<^verbatim>\<open>time.Now()\<close>) are an input of each operation. The foreign keys of
  the schema are declared but not enforced (the connection string does not switch
  them on), so they are no constraint of the model. A statement on the store fails
  only where SQL semantics make it fail (no matching row, primary-key conflict) or
  where a column read cannot be stored into its Go field.
\<close>

record user_row =
  u_id :: int
  u_pub_key :: string
  u_balance :: real
  u_ref_id :: "int option"

record investment_row =
  inv_id :: int
  inv_user_id :: int
  inv_type :: string
  inv_amount :: real
  inv_created_at :: int

record referral_earning_row =
  re_id :: int
  re_referrer_id :: int
  re_referred_id :: int
  re_amount :: real
  re_level :: int
  re_created_at :: int

record deposit_request_row =
  dep_id :: int
  dep_user_id :: int
  dep_amount :: real
  dep_status :: string
  dep_memo :: string
  dep_created_at :: int

record withdrawal_request_row =
  wr_id :: int
  wr_user_id :: int
  wr_amount :: real
  wr_status :: string
  wr_created_at :: int

text \<open>The \<^verbatim>\<open>extra\<close> column holds JSON; the model keeps the values that are encoded.\<close>

datatype extra =
    NoExtra
  | CreatedExtra string real int
  | ClosedExtra string int int int
  | TxHashExtra string

text \<open>The description is a format string applied to these arguments.\<close>

datatype description =
    CreatedDescription string
  | ClosedDescription string
  | WithdrawalDescription real

record operation_row =
  op_id :: int
  op_user_id :: int
  op_type :: string
  op_amount :: real
  op_description :: description
  op_created_at :: int
  op_extra :: extra

record withdrawal_row =
  w_id :: int
  w_user_id :: int
  w_amount :: real
  w_status :: string
  w_tx_hash :: "string option"
  w_created_at :: int

text \<open>
  The \<^verbatim>\<open>*_seq\<close> fields are the \<^verbatim>\<open>sqlite_sequence\<close> entries of the tables declared
  \<^verbatim>\<open>AUTOINCREMENT\<close>: the largest row id ever used.
\<close>

record database =
  users :: "user_row list"
  investments :: "investment_row list"
  investments_seq :: int
  referral_earnings :: "referral_earning_row list"
  referral_earnings_seq :: int
  deposit_requests :: "deposit_request_row list"
  deposit_requests_seq :: int
  withdrawal_requests :: "withdrawal_request_row list"
  withdrawal_requests_seq :: int
  operations :: "operation_row list"
  operations_seq :: int
  withdrawals :: "withdrawal_row list"

definition StatusPending :: string where
  "StatusPending = ''pending''"

definition StatusCompleted :: string where
  "StatusCompleted = ''completed''"

definition StatusFailed :: string where
  "StatusFailed = ''failed''"

definition OperationTypeInvestmentCreated :: string where
  "OperationTypeInvestmentCreated = ''investment_created''"

definition OperationTypeInvestmentClosed :: string where
  "OperationTypeInvestmentClosed = ''investment_closed''"

text \<open>
  An \<^verbatim>\<open>AUTOINCREMENT\<close> row id is one more than the largest id the table ever held.
  Row ids are HOL integers without the upper end of SQLite's range: at the largest id
  \<open>2 ^ 63 - 1\<close> SQLite refuses the insert, a store that ids counted up from 1 do not
  reach.
\<close>

definition next_rowid :: "int \<Rightarrow> int list \<Rightarrow> int" where
  "next_rowid seq ids = fold max ids seq + 1"

datatype db_error =
    ErrNoRows
  | ErrInsufficientBalance
  | ErrInvestmentNotFound
  | ErrConstraint
  | ErrNoWithdrawalFound
  | ErrScan

text \<open>
  \<^verbatim>\<open>rows.Scan\<close> of a \<^verbatim>\<open>created_at\<close> column into a \<^verbatim>\<open>time.Time\<close> field. The SQLite
  driver hands a \<^verbatim>\<open>time.Time\<close> over only for a column declared \<^verbatim>\<open>DATE\<close>,
  \<^verbatim>\<open>DATETIME\<close> or \<^verbatim>\<open>TIMESTAMP\<close>; for a column of any other declared type it hands
  over the stored integer or text, which \<^verbatim>\<open>database/sql\<close> cannot store into a
  \<^verbatim>\<open>time.Time\<close>: the scan returns an error, whatever the stored value.
\<close>

datatype column_decl = DeclInteger | DeclDatetime

fun scan_time :: "column_decl \<Rightarrow> int \<Rightarrow> db_error + int" where
  "scan_time DeclDatetime t = Inr t"
| "scan_time DeclInteger t = Inl ErrScan"

text \<open>The declarations of \<^verbatim>\<open>createTables\<close> for the two columns read into a \<^verbatim>\<open>time.Time\<close>.\<close>

definition deposit_requests_created_at :: column_decl where
  "deposit_requests_created_at = DeclInteger"

definition withdrawals_created_at :: column_decl where
  "withdrawals_created_at = DeclDatetime"

text \<open>The loop \<^verbatim>\<open>for rows.Next() { rows.Scan(...) }\<close>: the first failing scan ends it.\<close>

fun scan_rows :: "('a \<Rightarrow> db_error + 'b) \<Rightarrow> 'a list \<Rightarrow> db_error + 'b list" where
  "scan_rows scan [] = Inr []"
| "scan_rows scan (r # rest) =
     (case scan r of
        Inl err \<Rightarrow> Inl err
      | Inr x \<Rightarrow>
          (case scan_rows scan rest of
             Inl err \<Rightarrow> Inl err
           | Inr xs \<Rightarrow> Inr (x # xs)))"

section \<open>Ledger store: users\<close>

text \<open>\<^verbatim>\<open>model.User\<close> as the store returns it: the row and the user's investments.\<close>

record user =
  ID :: int
  PubKey :: string
  Balance :: real
  RefID :: "int option"
  Investments :: "investment_row list"

definition getUserInvestments :: "database \<Rightarrow> int \<Rightarrow> investment_row list" where
  "getUserInvestments s userID = filter (\<lambda>i. inv_user_id i = userID) (investments s)"

definition scan_user :: "database \<Rightarrow> user_row \<Rightarrow> user" where
  "scan_user s r =
     \<lparr>ID = u_id r, PubKey = u_pub_key r, Balance = u_balance r, RefID = u_ref_id r,
      Investments = getUserInvestments s (u_id r)\<rparr>"

definition GetUserByPubKey :: "database \<Rightarrow> string \<Rightarrow> db_error + user" where
  "GetUserByPubKey s pubKey =
     (case find (\<lambda>r. u_pub_key r = pubKey) (users s) of
        None \<Rightarrow> Inl ErrNoRows
      | Some r \<Rightarrow> Inr (scan_user s r))"

definition GetUser :: "database \<Rightarrow> int \<Rightarrow> db_error + user" where
  "GetUser s uid =
     (case find (\<lambda>r. u_id r = uid) (users s) of
        None \<Rightarrow> Inl ErrNoRows
      | Some r \<Rightarrow> Inr (scan_user s r))"

text \<open>
  \<^verbatim>\<open>CreateUser\<close>: \<open>rnd\<close> is the value \<^verbatim>\<open>rand.Intn\<close> returns when no custom id is
  given. The insert fails when the id is taken (primary key).
\<close>

definition CreateUser ::
  "database \<Rightarrow> string \<Rightarrow> int option \<Rightarrow> int option \<Rightarrow> int \<Rightarrow> (db_error + user) \<times> database" where
  "CreateUser s pubKey refID customID rnd =
     (case GetUserByPubKey s pubKey of
        Inr existingUser \<Rightarrow> (Inr existingUser, s)
      | Inl err \<Rightarrow>
          if err \<noteq> ErrNoRows then (Inl err, s)
          else
            let uid = (case customID of Some c \<Rightarrow> c | None \<Rightarrow> rnd + 1000000000) in
            if uid \<in> set (map u_id (users s)) then (Inl ErrConstraint, s)
            else
              let s' = s\<lparr>users := users s @
                         [\<lparr>u_id = uid, u_pub_key = pubKey, u_balance = 0, u_ref_id = refID\<rparr>]\<rparr>
              in (GetUser s' uid, s'))"

definition DeleteUser :: "database \<Rightarrow> int \<Rightarrow> database" where
  "DeleteUser s uid =
     s\<lparr>investments := filter (\<lambda>i. inv_user_id i \<noteq> uid) (investments s),
       users := filter (\<lambda>r. u_id r \<noteq> uid) (users s)\<rparr>"

text \<open>\<^verbatim>\<open>UPDATE users SET balance = ... WHERE id = ?\<close>, with the new balance as a function of the old.\<close>

definition update_balance :: "(real \<Rightarrow> real) \<Rightarrow> int \<Rightarrow> user_row list \<Rightarrow> user_row list" where
  "update_balance f uid rows =
     map (\<lambda>r. if u_id r = uid then r\<lparr>u_balance := f (u_balance r)\<rparr> else r) rows"

definition UpdateUserBalance :: "database \<Rightarrow> int \<Rightarrow> real \<Rightarrow> database" where
  "UpdateUserBalance s userID newBalance =
     s\<lparr>users := update_balance (\<lambda>_. newBalance) userID (users s)\<rparr>"

text \<open>The balance column of a user, read by id.\<close>

definition balance_of :: "database \<Rightarrow> int \<Rightarrow> real option" where
  "balance_of s uid = map_option u_balance (find (\<lambda>r. u_id r = uid) (users s))"

section \<open>Ledger store: investments\<close>

text \<open>
  \<^verbatim>\<open>CreateInvestment\<close> and \<^verbatim>\<open>DeleteInvestment\<close> each run in one transaction
  (\<^verbatim>\<open>defer tx.Rollback()\<close>): on an error the store is unchanged, so the error carries
  no state.
\<close>

record InvestmentTypeConfig =
  WeeklyPercent :: real
  MinAmount :: real
  LockPeriod :: int

definition CreateInvestment ::
  "database \<Rightarrow> int \<Rightarrow> string \<Rightarrow> real \<Rightarrow> InvestmentTypeConfig \<Rightarrow> int \<Rightarrow> db_error + database" where
  "CreateInvestment s userID investType amount config now =
     (case find (\<lambda>r. u_id r = userID) (users s) of
        None \<Rightarrow> Inl ErrNoRows
      | Some r \<Rightarrow>
          if u_balance r < amount then Inl ErrInsufficientBalance
          else
            let iid = next_rowid (investments_seq s) (map inv_id (investments s));
                oid = next_rowid (operations_seq s) (map op_id (operations s))
            in Inr (s\<lparr>users := update_balance (\<lambda>b. b - amount) userID (users s),
                     investments := investments s @
                       [\<lparr>inv_id = iid, inv_user_id = userID, inv_type = investType,
                         inv_amount = amount, inv_created_at = now\<rparr>],
                     investments_seq := iid,
                     operations := operations s @
                       [\<lparr>op_id = oid, op_user_id = userID,
                         op_type = OperationTypeInvestmentCreated, op_amount = amount,
                         op_description = CreatedDescription investType,
                         op_created_at = now,
                         op_extra = CreatedExtra investType (WeeklyPercent config) (LockPeriod config)\<rparr>],
                     operations_seq := oid\<rparr>))"

text \<open>Go's integer division truncates towards zero.\<close>

definition go_div :: "int \<Rightarrow> int \<Rightarrow> int" where
  "go_div a b = sgn a * sgn b * (\<bar>a\<bar> div \<bar>b\<bar>)"

definition DeleteInvestment :: "database \<Rightarrow> int \<Rightarrow> int \<Rightarrow> int \<Rightarrow> db_error + database" where
  "DeleteInvestment s userID investmentID now =
     (case find (\<lambda>i. inv_id i = investmentID \<and> inv_user_id i = userID) (investments s) of
        None \<Rightarrow> Inl ErrInvestmentNotFound
      | Some investment \<Rightarrow>
          let remaining = filter (\<lambda>i. \<not> (inv_id i = investmentID \<and> inv_user_id i = userID))
                            (investments s);
              oid = next_rowid (operations_seq s) (map op_id (operations s))
          in if length remaining = length (investments s) then Inl ErrInvestmentNotFound
             else Inr (s\<lparr>investments := remaining,
                      users := update_balance (\<lambda>b. b + inv_amount investment) userID (users s),
                      operations := operations s @
                        [\<lparr>op_id = oid, op_user_id = userID,
                          op_type = OperationTypeInvestmentClosed,
                          op_amount = inv_amount investment,
                          op_description = ClosedDescription (inv_type investment),
                          op_created_at = now,
                          op_extra = ClosedExtra (inv_type investment) investmentID
                                       (inv_created_at investment)
                                       (go_div (now - inv_created_at investment) 86400)\<rparr>],
                      operations_seq := oid\<rparr>))"

section \<open>Ledger store: referral earnings, deposits, withdrawals\<close>

definition AddReferralEarning :: "database \<Rightarrow> int \<Rightarrow> int \<Rightarrow> real \<Rightarrow> int \<Rightarrow> int \<Rightarrow> database" where
  "AddReferralEarning s referrerID referredID amount level now =
     (let rid = next_rowid (referral_earnings_seq s) (map re_id (referral_earnings s))
      in s\<lparr>referral_earnings := referral_earnings s @
              [\<lparr>re_id = rid, re_referrer_id = referrerID, re_referred_id = referredID,
                re_amount = amount, re_level = level, re_created_at = now\<rparr>],
            referral_earnings_seq := rid,
            users := update_balance (\<lambda>b. b + amount) referrerID (users s)\<rparr>)"

text \<open>
  Reading a row of \<^verbatim>\<open>deposit_requests\<close> into a \<^verbatim>\<open>model.DepositRequest\<close>, whose
  \<^verbatim>\<open>CreatedAt\<close> is a \<^verbatim>\<open>time.Time\<close>.
\<close>

definition scan_deposit :: "deposit_request_row \<Rightarrow> db_error + deposit_request_row" where
  "scan_deposit d =
     (case scan_time deposit_requests_created_at (dep_created_at d) of
        Inl err \<Rightarrow> Inl err
      | Inr _ \<Rightarrow> Inr d)"

definition GetDepositRequest :: "database \<Rightarrow> int \<Rightarrow> db_error + deposit_request_row" where
  "GetDepositRequest s did =
     (case find (\<lambda>d. dep_id d = did) (deposit_requests s) of
        None \<Rightarrow> Inl ErrNoRows
      | Some d \<Rightarrow> scan_deposit d)"

definition CreateDepositRequest ::
  "database \<Rightarrow> int \<Rightarrow> real \<Rightarrow> string \<Rightarrow> int \<Rightarrow> (db_error + deposit_request_row) \<times> database" where
  "CreateDepositRequest s userID amount memo now =
     (let did = next_rowid (deposit_requests_seq s) (map dep_id (deposit_requests s));
          s' = s\<lparr>deposit_requests := deposit_requests s @
                    [\<lparr>dep_id = did, dep_user_id = userID, dep_amount = amount,
                      dep_status = StatusPending, dep_memo = memo, dep_created_at = now\<rparr>],
                  deposit_requests_seq := did\<rparr>
      in (GetDepositRequest s' did, s'))"

definition GetDepositsOfUser :: "database \<Rightarrow> int \<Rightarrow> db_error + deposit_request_row list" where
  "GetDepositsOfUser s userID =
     scan_rows scan_deposit (filter (\<lambda>d. dep_user_id d = userID) (deposit_requests s))"

definition UpdateDepositStatus :: "database \<Rightarrow> int \<Rightarrow> string \<Rightarrow> database" where
  "UpdateDepositStatus s did status =
     s\<lparr>deposit_requests :=
         map (\<lambda>d. if dep_id d = did then d\<lparr>dep_status := status\<rparr> else d) (deposit_requests s)\<rparr>"

definition CreateWithdrawalRequest :: "database \<Rightarrow> int \<Rightarrow> real \<Rightarrow> int \<Rightarrow> database" where
  "CreateWithdrawalRequest s userID amount now =
     (let wid = next_rowid (withdrawal_requests_seq s) (map wr_id (withdrawal_requests s))
      in s\<lparr>withdrawal_requests := withdrawal_requests s @
              [\<lparr>wr_id = wid, wr_user_id = userID, wr_amount = amount,
                wr_status = StatusPending, wr_created_at = now\<rparr>],
            withdrawal_requests_seq := wid\<rparr>)"

definition ConfirmWithdrawalRequest :: "database \<Rightarrow> int \<Rightarrow> database" where
  "ConfirmWithdrawalRequest s wid =
     s\<lparr>withdrawal_requests :=
         map (\<lambda>w. if wr_id w = wid then w\<lparr>wr_status := StatusCompleted\<rparr> else w)
           (withdrawal_requests s)\<rparr>"

text \<open>
  \<^verbatim>\<open>ORDER BY created_at DESC\<close>. SQL leaves the order of rows with equal keys open; the
  model keeps them in insertion order (a stable sort).
\<close>

definition order_by_desc :: "('a \<Rightarrow> int) \<Rightarrow> 'a list \<Rightarrow> 'a list" where
  "order_by_desc key rows = sort_key (\<lambda>r. - key r) rows"

text \<open>
  \<^verbatim>\<open>GetWithdrawalRequestsByUser\<close> reads the table \<^verbatim>\<open>withdrawals\<close>, whose
  \<^verbatim>\<open>created_at\<close> is declared \<^verbatim>\<open>DATETIME\<close>.
\<close>

definition scan_withdrawal :: "withdrawal_row \<Rightarrow> db_error + withdrawal_row" where
  "scan_withdrawal w =
     (case scan_time withdrawals_created_at (w_created_at w) of
        Inl err \<Rightarrow> Inl err
      | Inr _ \<Rightarrow> Inr w)"

definition GetWithdrawalRequestsByUser :: "database \<Rightarrow> int \<Rightarrow> db_error + withdrawal_row list" where
  "GetWithdrawalRequestsByUser s userID =
     scan_rows scan_withdrawal
       (order_by_desc w_created_at (filter (\<lambda>w. w_user_id w = userID) (withdrawals s)))"

definition UpdateWithdrawalTxHash :: "database \<Rightarrow> int \<Rightarrow> string \<Rightarrow> db_error + database" where
  "UpdateWithdrawalTxHash s userID txHash =
     (case order_by_desc w_created_at (filter (\<lambda>w. w_user_id w = userID) (withdrawals s)) of
        [] \<Rightarrow> Inl ErrNoWithdrawalFound
      | latest # _ \<Rightarrow>
          Inr (s\<lparr>withdrawals :=
                   map (\<lambda>w. if w_user_id w = userID \<and> w_id w = w_id latest
                             then w\<lparr>w_tx_hash := Some txHash, w_status := StatusCompleted\<rparr>
                             else w)
                     (withdrawals s)\<rparr>))"

section \<open>Ledger store: operation log\<close>

record Operation =
  o_UserID :: int
  o_Type :: string
  o_Amount :: real
  o_Description :: description
  o_Extra :: extra

definition AddOperation :: "database \<Rightarrow> Operation \<Rightarrow> int \<Rightarrow> database" where
  "AddOperation s op now =
     (let oid = next_rowid (operations_seq s) (map op_id (operations s))
      in s\<lparr>operations := operations s @
              [\<lparr>op_id = oid, op_user_id = o_UserID op, op_type = o_Type op,
                op_amount = o_Amount op, op_description = o_Description op,
                op_created_at = now, op_extra = o_Extra op\<rparr>],
            operations_seq := oid\<rparr>)"

record OperationHistory =
  Operations :: "operation_row list"
  Total :: int
  Page :: int
  PageSize :: int

text \<open>Arithmetic on Go's 64-bit \<^verbatim>\<open>int\<close> wraps around.\<close>

definition int64_wrap :: "int \<Rightarrow> int" where
  "int64_wrap x = (x + 2 ^ 63) mod 2 ^ 64 - 2 ^ 63"

text \<open>
  \<^verbatim>\<open>GetUserOperations\<close>: \<^verbatim>\<open>LIMIT pageSize OFFSET (page - 1) * pageSize\<close>. In SQLite a
  negative \<^verbatim>\<open>LIMIT\<close> is no limit and a negative \<^verbatim>\<open>OFFSET\<close> is zero.
\<close>

definition GetUserOperations :: "database \<Rightarrow> int \<Rightarrow> int \<Rightarrow> int \<Rightarrow> OperationHistory" where
  "GetUserOperations s userID page pageSize =
     (let mine = filter (\<lambda>e. op_user_id e = userID) (operations s);
          total = int (length mine);
          offset = int64_wrap (int64_wrap (page - 1) * pageSize);
          skipped = drop (nat offset) (order_by_desc op_created_at mine);
          rows = (if pageSize < 0 then skipped else take (nat pageSize) skipped)
      in \<lparr>Operations = rows, Total = total, Page = page, PageSize = pageSize\<rparr>)"

section \<open>Handlers: configuration, responses, external results\<close>

record ReferralConfig =
  Level1Percent :: real
  Level2Percent :: real
  Level3Percent :: real

record Config =
  InvestmentTypes :: "string \<rightharpoonup> InvestmentTypeConfig"
  Referral :: ReferralConfig

text \<open>
  The error of a response, one constructor per message of the handlers. In the
  vocabulary of the specification \<open>InsufficientBalance\<close> is InsufficientFunds,
  \<open>DepositNotPending\<close> is AlreadyProcessed, \<open>DepositNotOwned\<close> is Forbidden,
  \<open>UncompletedDeposits\<close> and \<open>UncompletedWithdrawals\<close> are PendingOperationsExist,
  \<open>AmountMustBePositive\<close> is InvalidAmount and \<open>InvalidInvestmentType\<close> is InvalidType.
  \<open>InsufficientBalance have requested\<close> carries the two amounts of the message.
  \<open>UserNotFoundError\<close> is the message \<^verbatim>\<open>user not found error\<close> that \<^verbatim>\<open>WithdrawFunds\<close>
  answers (status 404) when it cannot read the user's deposits.
\<close>

datatype error =
    InvalidRequestBody
  | PublicKeyRequired
  | InvalidInvestmentType
  | AmountMustBePositive
  | FailedToGetUser
  | InsufficientBalance real real
  | StoreError db_error
  | UserNotFound
  | DepositRequestNotFound
  | DepositNotOwned
  | DepositNotPending
  | NoDepositAddress
  | CheckTransactionFailed
  | PaymentNotReceived
  | UserNotFoundError
  | UncompletedDeposits
  | WithdrawalHistoryFailed
  | UncompletedWithdrawals
  | CreateWithdrawalFailed
  | WithdrawFailed
  | GenerateAddressFailed

text \<open>A response is the success payload or the HTTP status with the error.\<close>

datatype 'a response = Success 'a | Failure nat error

fun is_success :: "'a response \<Rightarrow> bool" where
  "is_success (Success _) = True"
| "is_success (Failure _ _) = False"

text \<open>\<^verbatim>\<open>ton.CheckDeposit\<close> returns \<^verbatim>\<open>(bool, error)\<close>.\<close>

datatype check_result = CheckError | Received bool

section \<open>Handlers: investments\<close>

datatype lock_period_text = AnyTime | LockedForDays int

record created_investment =
  ci_amount :: real
  ci_type :: string
  ci_weekly_percent :: real
  ci_example_weekly_profit :: real
  ci_lock_period :: lock_period_text
  ci_remaining_balance :: real

text \<open>
  \<^verbatim>\<open>Handler.CreateInvestment\<close>. The JSON binding (\<^verbatim>\<open>binding:"required"\<close>) rejects an
  empty type and a zero amount.
\<close>

definition Handler_CreateInvestment ::
  "Config \<Rightarrow> database \<Rightarrow> string \<Rightarrow> string \<Rightarrow> real \<Rightarrow> int \<Rightarrow> created_investment response \<times> database" where
  "Handler_CreateInvestment cfg s pubKey reqType reqAmount now =
     (if pubKey = [] then (Failure 400 PublicKeyRequired, s)
      else if reqType = [] \<or> reqAmount = 0 then (Failure 400 InvalidRequestBody, s)
      else case InvestmentTypes cfg reqType of
        None \<Rightarrow> (Failure 400 InvalidInvestmentType, s)
      | Some investConfig \<Rightarrow>
          if reqAmount \<le> 0 then (Failure 400 AmountMustBePositive, s)
          else (case GetUserByPubKey s pubKey of
            Inl _ \<Rightarrow> (Failure 500 FailedToGetUser, s)
          | Inr user \<Rightarrow>
              (case CreateInvestment s (ID user) reqType reqAmount investConfig now of
                 Inl err \<Rightarrow>
                   (if err = ErrInsufficientBalance
                    then (Failure 400 (InsufficientBalance (Balance user) reqAmount), s)
                    else (Failure 400 (StoreError err), s))
               | Inr s' \<Rightarrow>
                   (Success
                      \<lparr>ci_amount = reqAmount, ci_type = reqType,
                       ci_weekly_percent = WeeklyPercent investConfig,
                       ci_example_weekly_profit = reqAmount * (WeeklyPercent investConfig / 100),
                       ci_lock_period =
                         (if LockPeriod investConfig > 0
                          then LockedForDays (LockPeriod investConfig) else AnyTime),
                       ci_remaining_balance = Balance user - reqAmount\<rparr>,
                    s'))))"

text \<open>\<^verbatim>\<open>Handler.DeleteInvestment\<close>, from the parsed investment id on.\<close>

definition Handler_DeleteInvestment ::
  "database \<Rightarrow> string \<Rightarrow> int \<Rightarrow> int \<Rightarrow> unit response \<times> database" where
  "Handler_DeleteInvestment s pubKey investmentID now =
     (case GetUserByPubKey s pubKey of
        Inl _ \<Rightarrow> (Failure 404 UserNotFound, s)
      | Inr user \<Rightarrow>
          (case DeleteInvestment s (ID user) investmentID now of
             Inl err \<Rightarrow> (Failure 400 (StoreError err), s)
           | Inr s' \<Rightarrow> (Success (), s')))"

section \<open>Handlers: referral cascade\<close>

text \<open>The first loop of \<^verbatim>\<open>ProcessReferralEarnings\<close>: at most \<open>n\<close> more hops along \<^verbatim>\<open>ref_id\<close>.\<close>

fun referrer_chain :: "database \<Rightarrow> nat \<Rightarrow> int \<Rightarrow> int list \<Rightarrow> db_error + int list" where
  "referrer_chain s 0 currentUserID chain = Inr chain"
| "referrer_chain s (Suc n) currentUserID chain =
     (case find (\<lambda>r. u_id r = currentUserID) (users s) of
        None \<Rightarrow> Inl ErrNoRows
      | Some r \<Rightarrow>
          (case u_ref_id r of
             None \<Rightarrow> Inr chain
           | Some refID \<Rightarrow> referrer_chain s n refID (chain @ [refID])))"

definition level_percent :: "Config \<Rightarrow> int \<Rightarrow> real" where
  "level_percent cfg level =
     (if level = 1 then Level1Percent (Referral cfg)
      else if level = 2 then Level2Percent (Referral cfg)
      else if level = 3 then Level3Percent (Referral cfg)
      else 0)"

text \<open>The second loop: \<open>idx\<close> is the index of the head of the remaining chain.\<close>

fun add_earnings :: "Config \<Rightarrow> int \<Rightarrow> real \<Rightarrow> int \<Rightarrow> int \<Rightarrow> int list \<Rightarrow> database \<Rightarrow> database" where
  "add_earnings cfg userID profitAmount now idx [] s = s"
| "add_earnings cfg userID profitAmount now idx (referrerID # rest) s =
     (let level = idx + 1;
          earnings = profitAmount * (level_percent cfg level / 100)
      in add_earnings cfg userID profitAmount now (idx + 1) rest
           (AddReferralEarning s referrerID userID earnings level now))"

definition ProcessReferralEarnings ::
  "Config \<Rightarrow> database \<Rightarrow> int \<Rightarrow> real \<Rightarrow> int \<Rightarrow> db_error + database" where
  "ProcessReferralEarnings cfg s userID profitAmount now =
     (case referrer_chain s 3 userID [] of
        Inl err \<Rightarrow> Inl err
      | Inr referrerChain \<Rightarrow> Inr (add_earnings cfg userID profitAmount now 0 referrerChain s))"

section \<open>Handlers: deposit confirmation\<close>

text \<open>
  \<^verbatim>\<open>ConfirmDeposit\<close>: \<open>walletAddress\<close> is what \<^verbatim>\<open>GetDepositAddress\<close> returns and
  \<open>check\<close> what \<^verbatim>\<open>CheckDeposit\<close> returns for this call.
\<close>

definition ConfirmDeposit ::
  "database \<Rightarrow> string \<Rightarrow> int \<Rightarrow> string \<Rightarrow> check_result \<Rightarrow> string response \<times> database" where
  "ConfirmDeposit s pubKey depositID walletAddress check =
     (if pubKey = [] \<or> depositID = 0 then (Failure 400 InvalidRequestBody, s)
      else case GetUserByPubKey s pubKey of
        Inl _ \<Rightarrow> (Failure 404 UserNotFound, s)
      | Inr user \<Rightarrow>
          (case GetDepositRequest s depositID of
             Inl _ \<Rightarrow> (Failure 404 DepositRequestNotFound, s)
           | Inr deposit \<Rightarrow>
               if dep_user_id deposit \<noteq> ID user then (Failure 403 DepositNotOwned, s)
               else if dep_status deposit \<noteq> ''pending'' then (Failure 400 DepositNotPending, s)
               else if walletAddress = [] then (Failure 500 NoDepositAddress, s)
               else (case check of
                  CheckError \<Rightarrow> (Failure 500 CheckTransactionFailed, s)
                | Received received \<Rightarrow>
                    if \<not> received then (Failure 400 PaymentNotReceived, s)
                    else
                      let s1 = UpdateDepositStatus s (dep_id deposit) ''completed'';
                          s2 = UpdateUserBalance s1 (ID user) (Balance user + dep_amount deposit)
                      in (Success ''completed'', s2))))"

section \<open>Handlers: withdrawal\<close>

text \<open>The two summation loops of \<^verbatim>\<open>WithdrawFunds\<close>; \<open>None\<close> is the early return.\<close>

fun sum_deposits :: "real \<Rightarrow> deposit_request_row list \<Rightarrow> real option" where
  "sum_deposits MathDeposits [] = Some MathDeposits"
| "sum_deposits MathDeposits (deposit # rest) =
     (if dep_status deposit = ''completed''
      then sum_deposits (MathDeposits + dep_amount deposit) rest
      else None)"

fun sum_withdrawals :: "real \<Rightarrow> withdrawal_row list \<Rightarrow> real option" where
  "sum_withdrawals Mathwithdrawal [] = Some Mathwithdrawal"
| "sum_withdrawals Mathwithdrawal (withdrawal # rest) =
     (if w_status withdrawal = ''completed''
      then sum_withdrawals (Mathwithdrawal + w_amount withdrawal) rest
      else None)"

record WithdrawalResponse =
  wres_Amount :: real
  wres_Address :: string
  wres_TxHash :: string

text \<open>
  \<^verbatim>\<open>WithdrawFunds\<close>: \<open>transfer\<close> is the result of \<^verbatim>\<open>WithdrawUserFunds\<close> (the
  transaction hash, or \<open>None\<close> for an error) and \<open>address\<close> the result of
  \<^verbatim>\<open>GenerateWalletAddressFromPubKey\<close>. The binding (\<^verbatim>\<open>required,gt=0\<close>) rejects an empty
  key and an amount that is not positive.
\<close>

definition WithdrawFunds ::
  "database \<Rightarrow> string \<Rightarrow> real \<Rightarrow> string option \<Rightarrow> string option \<Rightarrow> int
     \<Rightarrow> WithdrawalResponse response \<times> database" where
  "WithdrawFunds s pubKey amount transfer address now =
     (if pubKey = [] \<or> \<not> 0 < amount then (Failure 400 InvalidRequestBody, s)
      else case GetUserByPubKey s pubKey of
        Inl _ \<Rightarrow> (Failure 404 UserNotFound, s)
      | Inr user \<Rightarrow>
      (case GetDepositsOfUser s (ID user) of
        Inl _ \<Rightarrow> (Failure 404 UserNotFoundError, s)
      | Inr deposits \<Rightarrow>
      (case sum_deposits 0 deposits of
        None \<Rightarrow> (Failure 400 UncompletedDeposits, s)
      | Some MathDeposits \<Rightarrow>
      (case GetWithdrawalRequestsByUser s (ID user) of
        Inl _ \<Rightarrow> (Failure 500 WithdrawalHistoryFailed, s)
      | Inr withdrawalRows \<Rightarrow>
      (case sum_withdrawals 0 withdrawalRows of
        None \<Rightarrow> (Failure 400 UncompletedWithdrawals, s)
      | Some Mathwithdrawal \<Rightarrow>
          let availableBalance = MathDeposits - MathDeposits * 0.2 - Mathwithdrawal in
          if availableBalance < amount
          then (Failure 400 (InsufficientBalance availableBalance amount), s)
          else if Balance user < amount
          then (Failure 400 (InsufficientBalance (Balance user) amount), s)
          else
            let s1 = CreateWithdrawalRequest s (ID user) amount now;
                s2 = ConfirmWithdrawalRequest s1 (ID user)
            in (case transfer of
                  None \<Rightarrow> (Failure 500 WithdrawFailed, s2)
                | Some txHash \<Rightarrow>
                    let s3 = (case UpdateWithdrawalTxHash s2 (ID user) txHash of
                                Inl _ \<Rightarrow> s2 | Inr t \<Rightarrow> t);
                        s4 = UpdateUserBalance s3 (ID user) (Balance user - amount)
                    in (case address of
                          None \<Rightarrow> (Failure 500 GenerateAddressFailed, s4)
                        | Some userAddress \<Rightarrow>
                            (Success \<lparr>wres_Amount = amount, wres_Address = userAddress,
                                      wres_TxHash = txHash\<rparr>,
                             AddOperation s4
                               \<lparr>o_UserID = ID user, o_Type = ''withdrawal'', o_Amount = amount,
                                o_Description = WithdrawalDescription amount,
                                o_Extra = TxHashExtra txHash\<rparr> now))))))))"

section \<open>Handlers: operation history\<close>

text \<open>
  \<^verbatim>\<open>Handler.GetUserOperations\<close>: \<open>pageQuery\<close> and \<open>pageSizeQuery\<close> are the query
  parameters as \<^verbatim>\<open>strconv.Atoi\<close> parses them, \<open>None\<close> when absent or not a number.
\<close>

definition Handler_GetUserOperations ::
  "database \<Rightarrow> string \<Rightarrow> int option \<Rightarrow> int option \<Rightarrow> OperationHistory response" where
  "Handler_GetUserOperations s pubKey pageQuery pageSizeQuery =
     (if pubKey = [] then Failure 400 PublicKeyRequired
      else case GetUserByPubKey s pubKey of
        Inl _ \<Rightarrow> Failure 404 UserNotFound
      | Inr user \<Rightarrow>
          let page = (case pageQuery of Some p \<Rightarrow> if p > 0 then p else 1 | None \<Rightarrow> 1);
              pageSize = (case pageSizeQuery of
                            Some ps \<Rightarrow> if ps > 0 \<and> ps \<le> 100 then ps else 10
                          | None \<Rightarrow> 10)
          in Success (GetUserOperations s (ID user) page pageSize))"

section \<open>Example stores\<close>

definition empty_db :: database where
  "empty_db =
     \<lparr>users = [], investments = [], investments_seq = 0,
      referral_earnings = [], referral_earnings_seq = 0,
      deposit_requests = [], deposit_requests_seq = 0,
      withdrawal_requests = [], withdrawal_requests_seq = 0,
      operations = [], operations_seq = 0,
      withdrawals = []\<rparr>"

definition new_user :: "int \<Rightarrow> string \<Rightarrow> real \<Rightarrow> int option \<Rightarrow> user_row" where
  "new_user uid pubKey balance refID =
     \<lparr>u_id = uid, u_pub_key = pubKey, u_balance = balance, u_ref_id = refID\<rparr>"

definition new_deposit :: "int \<Rightarrow> int \<Rightarrow> real \<Rightarrow> string \<Rightarrow> deposit_request_row" where
  "new_deposit did uid amount status =
     \<lparr>dep_id = did, dep_user_id = uid, dep_amount = amount, dep_status = status,
      dep_memo = ''TON'', dep_created_at = 0\<rparr>"

definition new_investment :: "int \<Rightarrow> int \<Rightarrow> real \<Rightarrow> investment_row" where
  "new_investment iid uid amount =
     \<lparr>inv_id = iid, inv_user_id = uid, inv_type = ''low'', inv_amount = amount,
      inv_created_at = 0\<rparr>"

text \<open>The configuration of the README.\<close>

definition readme_config :: Config where
  "readme_config =
     \<lparr>InvestmentTypes =
        [''low'' \<mapsto> \<lparr>WeeklyPercent = 1.5, MinAmount = 50, LockPeriod = 30\<rparr>,
         ''medium'' \<mapsto> \<lparr>WeeklyPercent = 2.25, MinAmount = 100, LockPeriod = 30\<rparr>,
         ''high'' \<mapsto> \<lparr>WeeklyPercent = 3, MinAmount = 100, LockPeriod = 30\<rparr>],
      Referral = \<lparr>Level1Percent = 7, Level2Percent = 3, Level3Percent = 1\<rparr>\<rparr>"

definition new_withdrawal :: "int \<Rightarrow> int \<Rightarrow> real \<Rightarrow> string \<Rightarrow> withdrawal_row" where
  "new_withdrawal wid uid amount status =
     \<lparr>w_id = wid, w_user_id = uid, w_amount = amount, w_status = status,
      w_tx_hash = None, w_created_at = 0\<rparr>"



text \<open>The operations of a user in the order of \<^verbatim>\<open>ORDER BY created_at DESC\<close>.\<close>

definition operations_desc :: "database \<Rightarrow> int \<Rightarrow> operation_row list" where
  "operations_desc s userID =
     order_by_desc op_created_at (filter (\<lambda>e. op_user_id e = userID) (operations s))"

text \<open>
  A log of 25 deposits of user 1, operation \<open>k\<close> created at time \<open>100 + k\<close>, followed
  by one operation of user 2.
\<close>

definition logged_deposit :: "int \<Rightarrow> int \<Rightarrow> operation_row" where
  "logged_deposit uid k =
     \<lparr>op_id = k, op_user_id = uid, op_type = ''deposit'', op_amount = 1,
      op_description = WithdrawalDescription 0, op_created_at = 100 + k, op_extra = NoExtra\<rparr>"

definition log_25 :: database where
  "log_25 = empty_db\<lparr>operations := map (logged_deposit 1)
                          [1, 2, 3, 4, 5, 6, 7, 8, 9, 10, 11, 12, 13, 14, 15, 16, 17, 18, 19, 20,
                           21, 22, 23, 24, 25]
                        @ [logged_deposit 2 26],
                      operations_seq := 26\<rparr>"

section \<open>Vocabulary of the properties\<close>

text \<open>\<open>refers s a b\<close>: user \<open>b\<close> has a row and its \<^verbatim>\<open>ref_id\<close> is \<open>a\<close>.\<close>

definition refers :: "database \<Rightarrow> int \<Rightarrow> int \<Rightarrow> bool" where
  "refers s a b = (map_option u_ref_id (find (\<lambda>r. u_id r = b) (users s)) = Some (Some a))"

definition has_no_referrer :: "database \<Rightarrow> int \<Rightarrow> bool" where
  "has_no_referrer s a = (map_option u_ref_id (find (\<lambda>r. u_id r = a) (users s)) = Some None)"

text \<open>A referral earning without its row id and timestamp: referrer, referred, amount, level.\<close>

definition earning_fact :: "referral_earning_row \<Rightarrow> int \<times> int \<times> real \<times> int" where
  "earning_fact e = (re_referrer_id e, re_referred_id e, re_amount e, re_level e)"

text \<open>
  Users 1 to 4 form the chain 1 refers 2, 2 refers 3, 3 refers 4; user 5 refers user 6
  and has no referrer.
\<close>

definition referral_db :: database where
  "referral_db =
     empty_db\<lparr>users := [new_user 1 ''a'' 10 None, new_user 2 ''b'' 20 (Some 1),
                         new_user 3 ''c'' 30 (Some 2), new_user 4 ''d'' 40 (Some 3),
                         new_user 5 ''e'' 50 None, new_user 6 ''f'' 60 (Some 5)]\<rparr>"

text \<open>User 7 (key \<^verbatim>\<open>k\<close>, balance 5) with a pending deposit request 3 of 100.\<close>

definition pending_deposit_db :: database where
  "pending_deposit_db =
     empty_db\<lparr>users := [new_user 7 ''k'' 5 None],
              deposit_requests := [new_deposit 3 7 100 ''pending''],
              deposit_requests_seq := 3\<rparr>"

definition completed_deposit_db :: database where
  "completed_deposit_db =
     empty_db\<lparr>users := [new_user 7 ''k'' 105 None],
              deposit_requests := [new_deposit 3 7 100 ''completed''],
              deposit_requests_seq := 3\<rparr>"

text \<open>
  Open and close calls on the store (\<^verbatim>\<open>database.CreateInvestment\<close> and
  \<^verbatim>\<open>database.DeleteInvestment\<close>) of one user, each with its timestamp.
\<close>

datatype investment_call =
    OpenCall string real InvestmentTypeConfig int
  | CloseCall int int

text \<open>The principal stored in the investment row a close call addresses.\<close>

definition principal_of :: "database \<Rightarrow> int \<Rightarrow> int \<Rightarrow> real option" where
  "principal_of s userID investmentID =
     map_option inv_amount
       (find (\<lambda>i. inv_id i = investmentID \<and> inv_user_id i = userID) (investments s))"

text \<open>
  A run of calls that all succeed returns the final store with the principals opened and
  the principals returned by closing, in call order; the first failing call ends the run with its error.
\<close>

fun run_investment_calls ::
  "database \<Rightarrow> int \<Rightarrow> investment_call list \<Rightarrow> db_error + (database \<times> real list \<times> real list)" where
  "run_investment_calls s userID [] = Inr (s, [], [])"
| "run_investment_calls s userID (OpenCall investType amount config now # rest) =
     (case CreateInvestment s userID investType amount config now of
        Inl err \<Rightarrow> Inl err
      | Inr s1 \<Rightarrow>
          (case run_investment_calls s1 userID rest of
             Inl err \<Rightarrow> Inl err
           | Inr (s2, opened, returned) \<Rightarrow> Inr (s2, amount # opened, returned)))"
| "run_investment_calls s userID (CloseCall investmentID now # rest) =
     (case DeleteInvestment s userID investmentID now of
        Inl err \<Rightarrow> Inl err
      | Inr s1 \<Rightarrow>
          (case run_investment_calls s1 userID rest of
             Inl err \<Rightarrow> Inl err
           | Inr (s2, opened, returned) \<Rightarrow>
               Inr (s2, opened,
                    (case principal_of s userID investmentID of Some p \<Rightarrow> p | None \<Rightarrow> 0)
                      # returned)))"

text \<open>The sum of the principals of the investments a user holds.\<close>

definition open_principals :: "database \<Rightarrow> int \<Rightarrow> real" where
  "open_principals s userID = sum_list (map inv_amount (getUserInvestments s userID))"

text \<open>User 9 with balance 1000 and no investment, and the configuration of type \<^verbatim>\<open>low\<close>.\<close>

definition investor_db :: database where
  "investor_db = empty_db\<lparr>users := [new_user 9 ''k'' 1000 None]\<rparr>"

definition low_config :: InvestmentTypeConfig where
  "low_config = \<lparr>WeeklyPercent = 1.5, MinAmount = 50, LockPeriod = 30\<rparr>"

text \<open>
  The requests of the handlers that are open to every caller and move balances, and the
  referral distribution; \<open>handle\<close> gives the store after a request, whether the request
  succeeds or fails.
\<close>

datatype request =
    OpenInvestment string string real
  | CloseInvestment string int
  | ConfirmDepositRequest string int string check_result
  | Withdraw string real "string option" "string option"
  | DistributeReferral int real

fun handle :: "Config \<Rightarrow> int \<Rightarrow> database \<Rightarrow> request \<Rightarrow> database" where
  "handle cfg now s (OpenInvestment pubKey investType amount) =
     snd (Handler_CreateInvestment cfg s pubKey investType amount now)"
| "handle cfg now s (CloseInvestment pubKey investmentID) =
     snd (Handler_DeleteInvestment s pubKey investmentID now)"
| "handle cfg now s (ConfirmDepositRequest pubKey depositID walletAddress check) =
     snd (ConfirmDeposit s pubKey depositID walletAddress check)"
| "handle cfg now s (Withdraw pubKey amount transfer address) =
     snd (WithdrawFunds s pubKey amount transfer address now)"
| "handle cfg now s (DistributeReferral userID profitAmount) =
     (case ProcessReferralEarnings cfg s userID profitAmount now of
        Inl _ \<Rightarrow> s
      | Inr s' \<Rightarrow> s')"

definition balances_nonneg :: "database \<Rightarrow> bool" where
  "balances_nonneg s = list_all (\<lambda>r. 0 \<le> u_balance r) (users s)"

text \<open>
  What every store produced by the handlers satisfies besides: user ids are a primary
  key, and the amounts of the recorded investments and deposit requests are not
  negative (an investment needs a positive amount, a deposit request at least 1).
\<close>

definition recorded_amounts_ok :: "database \<Rightarrow> bool" where
  "recorded_amounts_ok s =
     (distinct (map u_id (users s))
      \<and> list_all (\<lambda>i. 0 \<le> inv_amount i) (investments s)
      \<and> list_all (\<lambda>d. 0 \<le> dep_amount d) (deposit_requests s))"

text \<open>The earnings a referral distribution credits are not negative.\<close>

fun earnings_nonneg :: "Config \<Rightarrow> request \<Rightarrow> bool" where
  "earnings_nonneg cfg (DistributeReferral userID profitAmount) =
     (0 \<le> profitAmount * Level1Percent (Referral cfg)
      \<and> 0 \<le> profitAmount * Level2Percent (Referral cfg)
      \<and> 0 \<le> profitAmount * Level3Percent (Referral cfg))"
| "earnings_nonneg cfg _ = True"

section \<open>Evaluation\<close>

lemmas eval_defs = empty_db_def new_user_def new_deposit_def new_investment_def
  new_withdrawal_def readme_config_def
  GetUserByPubKey_def GetUser_def scan_user_def getUserInvestments_def update_balance_def
  UpdateUserBalance_def balance_of_def next_rowid_def CreateInvestment_def DeleteInvestment_def
  AddReferralEarning_def scan_deposit_def deposit_requests_created_at_def scan_withdrawal_def
  withdrawals_created_at_def GetDepositRequest_def GetDepositsOfUser_def UpdateDepositStatus_def
  CreateWithdrawalRequest_def ConfirmWithdrawalRequest_def order_by_desc_def
  GetWithdrawalRequestsByUser_def UpdateWithdrawalTxHash_def AddOperation_def
  StatusPending_def StatusCompleted_def OperationTypeInvestmentCreated_def
  OperationTypeInvestmentClosed_def Let_def

section \<open>Properties of the user table\<close>

text \<open>
  C9. \<^verbatim>\<open>CreateUser\<close> is idempotent on the public key: when a row with the given
  \<^verbatim>\<open>pub_key\<close> exists, the call returns that user (its id, balance and referrer as
  stored) and the store is left exactly as it was, whatever \<^verbatim>\<open>refID\<close>, \<^verbatim>\<open>customID\<close>
  and random id are supplied.
\<close>

theorem CreateUser_existing:
  assumes "find (\<lambda>r. u_pub_key r = pubKey) (users s) = Some r"
  shows "CreateUser s pubKey refID customID rnd = (Inr (scan_user s r), s)
         \<and> ID (scan_user s r) = u_id r \<and> Balance (scan_user s r) = u_balance r
         \<and> RefID (scan_user s r) = u_ref_id r"
  using assms by (simp add: CreateUser_def GetUserByPubKey_def scan_user_def)

theorem CreateUser_existing_witness:
  "find (\<lambda>r. u_pub_key r = ''k'') (users (empty_db\<lparr>users := [new_user 5 ''k'' 12 (Some 3)]\<rparr>))
     = Some (new_user 5 ''k'' 12 (Some 3))
   \<and> CreateUser (empty_db\<lparr>users := [new_user 5 ''k'' 12 (Some 3)]\<rparr>) ''k'' (Some 9) (Some 77) 4
     = (Inr \<lparr>ID = 5, PubKey = ''k'', Balance = 12, RefID = Some 3, Investments = []\<rparr>,
        empty_db\<lparr>users := [new_user 5 ''k'' 12 (Some 3)]\<rparr>)"
  using CreateUser_existing
    [of "''k''" "empty_db\<lparr>users := [new_user 5 ''k'' 12 (Some 3)]\<rparr>"
        "new_user 5 ''k'' 12 (Some 3)" "Some 9" "Some 77" 4]
  by (simp add: empty_db_def new_user_def scan_user_def getUserInvestments_def)

text \<open>
  C10. Frame of \<^verbatim>\<open>DeleteUser\<close>: it removes the rows of \<^verbatim>\<open>users\<close> with the given id
  and the rows of \<^verbatim>\<open>investments\<close> with that \<^verbatim>\<open>user_id\<close>, keeps every other row of
  these two tables in place, and leaves deposit requests, withdrawal requests,
  withdrawal records, operations and referral earnings (of this and of every other
  user) as they were.
\<close>

theorem DeleteUser_frame:
  "users (DeleteUser s uid) = filter (\<lambda>r. u_id r \<noteq> uid) (users s)
   \<and> investments (DeleteUser s uid) = filter (\<lambda>i. inv_user_id i \<noteq> uid) (investments s)
   \<and> deposit_requests (DeleteUser s uid) = deposit_requests s
   \<and> withdrawal_requests (DeleteUser s uid) = withdrawal_requests s
   \<and> withdrawals (DeleteUser s uid) = withdrawals s
   \<and> operations (DeleteUser s uid) = operations s
   \<and> referral_earnings (DeleteUser s uid) = referral_earnings s
   \<and> investments_seq (DeleteUser s uid) = investments_seq s
   \<and> referral_earnings_seq (DeleteUser s uid) = referral_earnings_seq s
   \<and> deposit_requests_seq (DeleteUser s uid) = deposit_requests_seq s
   \<and> withdrawal_requests_seq (DeleteUser s uid) = withdrawal_requests_seq s
   \<and> operations_seq (DeleteUser s uid) = operations_seq s"
  by (simp add: DeleteUser_def)

section \<open>Minimum investment amount\<close>

text \<open>
  C5. The specification: opening an investment with an amount below the configured minimum of
  its type fails with BelowMinimum, inserts no investment row and leaves the balance
  as it was. \<^verbatim>\<open>Handler.CreateInvestment\<close> looks the type's configuration up and never
  reads its \<^verbatim>\<open>MinAmount\<close>: with the README configuration (minimum 50 for
  \<^verbatim>\<open>low\<close>) a user with balance 100 opens a \<^verbatim>\<open>low\<close> investment of 10; the call
  succeeds, the row is inserted and the balance drops to 90.
\<close>

theorem CreateInvestment_below_minimum_succeeds:
  "map_option MinAmount (InvestmentTypes readme_config ''low'') = Some 50
   \<and> Handler_CreateInvestment readme_config (empty_db\<lparr>users := [new_user 1 ''k'' 100 None]\<rparr>)
        ''k'' ''low'' 10 0
     = (Success \<lparr>ci_amount = 10, ci_type = ''low'', ci_weekly_percent = 1.5,
                 ci_example_weekly_profit = 0.15, ci_lock_period = LockedForDays 30,
                 ci_remaining_balance = 90\<rparr>,
        empty_db\<lparr>users := [new_user 1 ''k'' 90 None],
                 investments := [\<lparr>inv_id = 1, inv_user_id = 1, inv_type = ''low'',
                                  inv_amount = 10, inv_created_at = 0\<rparr>],
                 investments_seq := 1,
                 operations := [\<lparr>op_id = 1, op_user_id = 1, op_type = ''investment_created'',
                                 op_amount = 10, op_description = CreatedDescription ''low'',
                                 op_created_at = 0, op_extra = CreatedExtra ''low'' 1.5 30\<rparr>],
                 operations_seq := 1\<rparr>)"
  by (simp add: Handler_CreateInvestment_def eval_defs)

section \<open>Operation history\<close>

lemma int64_wrap_id: "- (2 ^ 63) \<le> x \<Longrightarrow> x < 2 ^ 63 \<Longrightarrow> int64_wrap x = x"
  by (simp add: int64_wrap_def)

lemma order_by_desc_sorted:
  "sorted_wrt (\<lambda>a b. key b \<le> key a) (order_by_desc key rows)"
proof -
  have "sorted (map (\<lambda>r. - key r) (sort_key (\<lambda>r. - key r) rows))"
    by (rule sorted_sort_key)
  then show ?thesis
    by (simp add: order_by_desc_def sorted_map)
qed

lemma order_by_desc_mset: "mset (order_by_desc key rows) = mset rows"
  by (simp add: order_by_desc_def)

text \<open>
  C8. Pagination. For a page number \<open>page \<ge> 1\<close> and a page size \<open>pageSize \<ge> 1\<close> (the
  handler passes no others) whose offset \<open>(page - 1) * pageSize\<close> fits Go's 64-bit
  \<^verbatim>\<open>int\<close>, \<^verbatim>\<open>GetUserOperations\<close> returns the operations at positions
  \<open>(page - 1) * pageSize + 1\<close> to \<open>page * pageSize\<close> of the user's operations in
  descending order of creation time, together with the number of all operations of
  that user. The ordering is descending in \<^verbatim>\<open>created_at\<close> and holds exactly the
  user's operations. The instance below is the case of the specification: 25 operations,
  page 2, page size 10 give the 11th to the 20th operation and total 25.
\<close>

theorem GetUserOperations_page:
  assumes "1 \<le> page" and "1 \<le> pageSize" and "(page - 1) * pageSize < 2 ^ 63"
  shows "Operations (GetUserOperations s userID page pageSize)
           = take (nat pageSize) (drop (nat ((page - 1) * pageSize)) (operations_desc s userID))
         \<and> Total (GetUserOperations s userID page pageSize)
           = int (length (filter (\<lambda>e. op_user_id e = userID) (operations s)))
         \<and> sorted_wrt (\<lambda>a b. op_created_at b \<le> op_created_at a) (operations_desc s userID)
         \<and> mset (operations_desc s userID)
           = mset (filter (\<lambda>e. op_user_id e = userID) (operations s))"
proof -
  have le: "page - 1 \<le> (page - 1) * pageSize"
    using assms(1,2) mult_left_mono [of 1 pageSize "page - 1"] by simp
  have w1: "int64_wrap (page - 1) = page - 1"
    using assms le by (intro int64_wrap_id) simp_all
  have nonneg: "0 \<le> (page - 1) * pageSize"
    using assms(1,2) by simp
  have w2: "int64_wrap ((page - 1) * pageSize) = (page - 1) * pageSize"
    using assms(3) nonneg by (intro int64_wrap_id) simp_all
  show ?thesis
    using assms(2)
    by (simp add: GetUserOperations_def operations_desc_def Let_def w1 w2
        order_by_desc_sorted order_by_desc_mset)
qed

theorem GetUserOperations_page_witness:
  "(1::int) \<le> 2 \<and> (1::int) \<le> 10 \<and> (2 - 1) * 10 < (2::int) ^ 63
   \<and> length (filter (\<lambda>e. op_user_id e = 1) (operations log_25)) = 25
   \<and> Operations (GetUserOperations log_25 1 2 10)
     = map (logged_deposit 1) [15, 14, 13, 12, 11, 10, 9, 8, 7, 6]
   \<and> take 10 (drop 10 (operations_desc log_25 1))
     = map (logged_deposit 1) [15, 14, 13, 12, 11, 10, 9, 8, 7, 6]
   \<and> Total (GetUserOperations log_25 1 2 10) = 25"
  using GetUserOperations_page [of 2 10 log_25 1]
  by (simp add: operations_desc_def order_by_desc_def log_25_def empty_db_def logged_deposit_def)

section \<open>Referral cascade\<close>

lemma find_update_balance:
  "find (\<lambda>r. u_id r = x) (update_balance f uid rows)
     = map_option (\<lambda>r. if u_id r = uid then r\<lparr>u_balance := f (u_balance r)\<rparr> else r)
         (find (\<lambda>r. u_id r = x) rows)"
  by (induction rows) (auto simp: update_balance_def)

lemma balance_of_update_balance:
  assumes "users s' = update_balance f uid (users s)"
  shows "balance_of s' x = (if x = uid then map_option f (balance_of s x) else balance_of s x)"
proof (cases "find (\<lambda>r. u_id r = x) (users s)")
  case None
  then show ?thesis by (auto simp: balance_of_def assms find_update_balance)
next
  case (Some r)
  then have "u_id r = x" by (auto simp: find_Some_iff)
  with Some show ?thesis by (auto simp: balance_of_def assms find_update_balance)
qed

lemma balance_of_AddReferralEarning:
  "balance_of (AddReferralEarning s r u e l now) x
     = (if x = r then map_option (\<lambda>b. b + e) (balance_of s x) else balance_of s x)"
  by (rule balance_of_update_balance) (simp add: AddReferralEarning_def Let_def)

lemma referral_earnings_AddReferralEarning:
  "\<exists>new. referral_earnings (AddReferralEarning s r u e l now) = referral_earnings s @ [new]
         \<and> earning_fact new = (r, u, e, l)"
  by (simp add: AddReferralEarning_def Let_def earning_fact_def)

lemma referrer_chain_3:
  assumes "refers s c d" and "refers s b c" and "refers s a b"
  shows "referrer_chain s 3 d [] = Inr [c, b, a]"
  using assms
  by (auto simp: refers_def numeral_3_eq_3 split: option.splits)

lemma referrer_chain_1:
  assumes "refers s a b" and "has_no_referrer s a"
  shows "referrer_chain s 3 b [] = Inr [a]"
  using assms
  by (auto simp: refers_def has_no_referrer_def numeral_3_eq_3 split: option.splits)

lemma cascade_three_deep:
  assumes "refers s c d" and "refers s b c" and "refers s a b"
    and "balance_of s a = Some ba" and "balance_of s b = Some bb" and "balance_of s c = Some bc"
    and "distinct [a, b, c]"
  shows "\<exists>s' new. ProcessReferralEarnings cfg s d P now = Inr s'
          \<and> balance_of s' c = Some (bc + P * Level1Percent (Referral cfg) / 100)
          \<and> balance_of s' b = Some (bb + P * Level2Percent (Referral cfg) / 100)
          \<and> balance_of s' a = Some (ba + P * Level3Percent (Referral cfg) / 100)
          \<and> referral_earnings s' = referral_earnings s @ new
          \<and> map earning_fact new
              = [(c, d, P * Level1Percent (Referral cfg) / 100, 1),
                 (b, d, P * Level2Percent (Referral cfg) / 100, 2),
                 (a, d, P * Level3Percent (Referral cfg) / 100, 3)]"
proof -
  define e1 where "e1 = P * (level_percent cfg 1 / 100)"
  define e2 where "e2 = P * (level_percent cfg 2 / 100)"
  define e3 where "e3 = P * (level_percent cfg 3 / 100)"
  define s1 where "s1 = AddReferralEarning s c d e1 1 now"
  define s2 where "s2 = AddReferralEarning s1 b d e2 2 now"
  define s3 where "s3 = AddReferralEarning s2 a d e3 3 now"
  have run: "ProcessReferralEarnings cfg s d P now = Inr s3"
    by (simp add: ProcessReferralEarnings_def referrer_chain_3 [OF assms(1-3)]
        s1_def s2_def s3_def e1_def e2_def e3_def Let_def)
  obtain n1 where n1: "referral_earnings s1 = referral_earnings s @ [n1]"
    "earning_fact n1 = (c, d, e1, 1)"
    using referral_earnings_AddReferralEarning [of s c d e1 1 now] by (auto simp: s1_def)
  obtain n2 where n2: "referral_earnings s2 = referral_earnings s1 @ [n2]"
    "earning_fact n2 = (b, d, e2, 2)"
    using referral_earnings_AddReferralEarning [of s1 b d e2 2 now] by (auto simp: s2_def)
  obtain n3 where n3: "referral_earnings s3 = referral_earnings s2 @ [n3]"
    "earning_fact n3 = (a, d, e3, 3)"
    using referral_earnings_AddReferralEarning [of s2 a d e3 3 now] by (auto simp: s3_def)
  have rows: "referral_earnings s3 = referral_earnings s @ [n1, n2, n3]"
    by (simp add: n1 n2 n3)
  have bals: "balance_of s3 c = Some (bc + e1)" "balance_of s3 b = Some (bb + e2)"
    "balance_of s3 a = Some (ba + e3)"
    using assms(4-7)
    by (simp_all add: s1_def s2_def s3_def balance_of_AddReferralEarning)
  have es: "e1 = P * Level1Percent (Referral cfg) / 100"
    "e2 = P * Level2Percent (Referral cfg) / 100"
    "e3 = P * Level3Percent (Referral cfg) / 100"
    by (simp_all add: e1_def e2_def e3_def level_percent_def)
  show ?thesis
    using run rows bals n1(2) n2(2) n3(2) unfolding es
    by (intro exI [of _ s3] exI [of _ "[n1, n2, n3]"]) simp
qed


lemma cascade_one_deep:
  assumes "refers s a b" and "has_no_referrer s a" and "balance_of s a = Some ba"
  shows "\<exists>s' new. ProcessReferralEarnings cfg s b P now = Inr s'
          \<and> balance_of s' a = Some (ba + P * Level1Percent (Referral cfg) / 100)
          \<and> referral_earnings s' = referral_earnings s @ [new]
          \<and> earning_fact new = (a, b, P * Level1Percent (Referral cfg) / 100, 1)"
proof -
  define e1 where "e1 = P * (level_percent cfg 1 / 100)"
  define s1 where "s1 = AddReferralEarning s a b e1 1 now"
  have run: "ProcessReferralEarnings cfg s b P now = Inr s1"
    by (simp add: ProcessReferralEarnings_def referrer_chain_1 [OF assms(1,2)]
        s1_def e1_def Let_def)
  obtain n1 where n1: "referral_earnings s1 = referral_earnings s @ [n1]"
    "earning_fact n1 = (a, b, e1, 1)"
    using referral_earnings_AddReferralEarning [of s a b e1 1 now] by (auto simp: s1_def)
  have bal: "balance_of s1 a = Some (ba + e1)"
    using assms(3) by (simp add: s1_def balance_of_AddReferralEarning)
  have es: "e1 = P * Level1Percent (Referral cfg) / 100"
    by (simp add: e1_def level_percent_def)
  show ?thesis
    using run n1 bal unfolding es
    by (intro exI [of _ s1] exI [of _ n1]) simp
qed

text \<open>
  C3. Referral cascade. When \<open>c\<close> refers \<open>d\<close>, \<open>b\<close> refers \<open>c\<close> and \<open>a\<close> refers \<open>b\<close>
  (three different referrers with a row each), \<^verbatim>\<open>ProcessReferralEarnings\<close> for user
  \<open>d\<close> and profit \<open>P\<close> succeeds, raises the balance of \<open>c\<close> by
  \<open>P * level1_percent / 100\<close>, of \<open>b\<close> by \<open>P * level2_percent / 100\<close> and of \<open>a\<close> by
  \<open>P * level3_percent / 100\<close>, and appends exactly three referral earnings: one per
  referrer, at levels 1, 2 and 3, each with \<open>d\<close> as the referred user. When \<open>a'\<close>
  refers \<open>b'\<close> and \<open>a'\<close> has no referrer, the call for \<open>b'\<close> appends exactly one
  earning, of level 1 for \<open>a'\<close>, and raises the balance of \<open>a'\<close> by
  \<open>P * level1_percent / 100\<close>.
\<close>

theorem ProcessReferralEarnings_cascade:
  "(refers s c d \<and> refers s b c \<and> refers s a b
      \<and> balance_of s a = Some ba \<and> balance_of s b = Some bb \<and> balance_of s c = Some bc
      \<and> distinct [a, b, c]
    \<longrightarrow> (\<exists>s' new. ProcessReferralEarnings cfg s d P now = Inr s'
          \<and> balance_of s' c = Some (bc + P * Level1Percent (Referral cfg) / 100)
          \<and> balance_of s' b = Some (bb + P * Level2Percent (Referral cfg) / 100)
          \<and> balance_of s' a = Some (ba + P * Level3Percent (Referral cfg) / 100)
          \<and> referral_earnings s' = referral_earnings s @ new
          \<and> map earning_fact new
              = [(c, d, P * Level1Percent (Referral cfg) / 100, 1),
                 (b, d, P * Level2Percent (Referral cfg) / 100, 2),
                 (a, d, P * Level3Percent (Referral cfg) / 100, 3)]))
   \<and> (refers s a' b' \<and> has_no_referrer s a' \<and> balance_of s a' = Some ba'
    \<longrightarrow> (\<exists>s' new. ProcessReferralEarnings cfg s b' P now = Inr s'
          \<and> balance_of s' a' = Some (ba' + P * Level1Percent (Referral cfg) / 100)
          \<and> referral_earnings s' = referral_earnings s @ [new]
          \<and> earning_fact new = (a', b', P * Level1Percent (Referral cfg) / 100, 1)))"
  using cascade_three_deep [of s c d b a ba bb bc cfg P now] cascade_one_deep [of s a' b' ba' cfg P now]
  by blast

theorem ProcessReferralEarnings_cascade_witness:
  "refers referral_db 3 4 \<and> refers referral_db 2 3 \<and> refers referral_db 1 2
   \<and> balance_of referral_db 1 = Some 10 \<and> balance_of referral_db 2 = Some 20
   \<and> balance_of referral_db 3 = Some 30 \<and> distinct [1, 2, 3 :: int]
   \<and> refers referral_db 5 6 \<and> has_no_referrer referral_db 5
   \<and> balance_of referral_db 5 = Some 50
   \<and> (\<exists>s'. ProcessReferralEarnings readme_config referral_db 4 200 9 = Inr s'
         \<and> balance_of s' 3 = Some 44 \<and> balance_of s' 2 = Some 26 \<and> balance_of s' 1 = Some 12
         \<and> map earning_fact (referral_earnings s') = [(3, 4, 14, 1), (2, 4, 6, 2), (1, 4, 2, 3)])
   \<and> (\<exists>s'. ProcessReferralEarnings readme_config referral_db 6 200 9 = Inr s'
         \<and> balance_of s' 5 = Some 64
         \<and> map earning_fact (referral_earnings s') = [(5, 6, 14, 1)])"
proof -
  have h: "refers referral_db 3 4 \<and> refers referral_db 2 3 \<and> refers referral_db 1 2
     \<and> balance_of referral_db 1 = Some 10 \<and> balance_of referral_db 2 = Some 20
     \<and> balance_of referral_db 3 = Some 30 \<and> distinct [1, 2, 3 :: int]
     \<and> refers referral_db 5 6 \<and> has_no_referrer referral_db 5
     \<and> balance_of referral_db 5 = Some 50"
    by (simp add: refers_def has_no_referrer_def referral_db_def eval_defs)
  have e: "referral_earnings referral_db = []"
    by (simp add: referral_db_def eval_defs)
  show ?thesis
    using h ProcessReferralEarnings_cascade
      [of referral_db 3 4 2 1 10 20 30 readme_config 200 9 5 6 50]
    by (auto simp: e readme_config_def)
qed

section \<open>Investment lifecycle\<close>

lemma fold_max_ge: "x \<in> set ids \<Longrightarrow> x \<le> fold max ids (seq :: int)"
proof -
  assume "x \<in> set ids"
  then have "x \<le> Max (set (seq # ids))" by simp
  then show ?thesis by (simp only: Max.set_eq_fold)
qed

lemma next_rowid_fresh: "next_rowid seq ids \<notin> set ids"
proof
  assume "next_rowid seq ids \<in> set ids"
  from fold_max_ge [OF this, of seq] show False by (simp add: next_rowid_def)
qed

lemma CreateInvestment_step:
  assumes "CreateInvestment s userID investType amount config now = Inr s1"
    and "balance_of s userID = Some b"
    and "distinct (map inv_id (investments s))"
  shows "balance_of s1 userID = Some (b - amount)"
    and "open_principals s1 userID = open_principals s userID + amount"
    and "distinct (map inv_id (investments s1))"
proof -
  from assms(1) have
    u: "users s1 = update_balance (\<lambda>b. b - amount) userID (users s)" and
    i: "investments s1 = investments s @
          [\<lparr>inv_id = next_rowid (investments_seq s) (map inv_id (investments s)),
            inv_user_id = userID, inv_type = investType,
            inv_amount = amount, inv_created_at = now\<rparr>]"
    by (auto simp: CreateInvestment_def Let_def split: option.splits if_splits)
  show "balance_of s1 userID = Some (b - amount)"
    using balance_of_update_balance [OF u, of userID] assms(2) by simp
  show "open_principals s1 userID = open_principals s userID + amount"
    by (simp add: open_principals_def getUserInvestments_def i)
  show "distinct (map inv_id (investments s1))"
    using assms(3) next_rowid_fresh [of "investments_seq s" "map inv_id (investments s)"]
    by (simp add: i)
qed

lemma sum_after_delete:
  assumes "distinct (map inv_id xs)"
    and "find (\<lambda>i. inv_id i = k \<and> inv_user_id i = u) xs = Some x"
  shows "sum_list (map inv_amount (filter (\<lambda>i. inv_user_id i = u)
           (filter (\<lambda>i. \<not> (inv_id i = k \<and> inv_user_id i = u)) xs)))
         = sum_list (map inv_amount (filter (\<lambda>i. inv_user_id i = u) xs)) - inv_amount x"
  using assms
proof (induction xs)
  case Nil
  then show ?case by simp
next
  case (Cons y ys)
  show ?case
  proof (cases "inv_id y = k \<and> inv_user_id y = u")
    case True
    then have x: "x = y" using Cons.prems(2) by simp
    have nk: "inv_id i \<noteq> k" if "i \<in> set ys" for i
      using that Cons.prems(1) True by (auto simp: image_iff)
    have "filter (\<lambda>i. \<not> (inv_id i = k \<and> inv_user_id i = u)) ys = ys"
      by (simp add: filter_id_conv nk)
    then show ?thesis using True x by simp
  next
    case False
    then have "find (\<lambda>i. inv_id i = k \<and> inv_user_id i = u) ys = Some x"
      using Cons.prems(2) by auto
    from Cons.IH [OF _ this] Cons.prems(1) False show ?thesis by auto
  qed
qed

lemma DeleteInvestment_step:
  assumes "DeleteInvestment s userID investmentID now = Inr s1"
    and "balance_of s userID = Some b"
    and "distinct (map inv_id (investments s))"
  shows "\<exists>p. principal_of s userID investmentID = Some p
           \<and> balance_of s1 userID = Some (b + p)
           \<and> open_principals s1 userID = open_principals s userID - p
           \<and> distinct (map inv_id (investments s1))"
proof -
  from assms(1) obtain x where
    f: "find (\<lambda>i. inv_id i = investmentID \<and> inv_user_id i = userID) (investments s) = Some x" and
    u: "users s1 = update_balance (\<lambda>b. b + inv_amount x) userID (users s)" and
    i: "investments s1
          = filter (\<lambda>i. \<not> (inv_id i = investmentID \<and> inv_user_id i = userID)) (investments s)"
    by (auto simp: DeleteInvestment_def Let_def split: option.splits if_splits)
  have "balance_of s1 userID = Some (b + inv_amount x)"
    using balance_of_update_balance [OF u, of userID] assms(2) by simp
  moreover have "open_principals s1 userID = open_principals s userID - inv_amount x"
    using sum_after_delete [OF assms(3) f]
    by (simp add: open_principals_def getUserInvestments_def i)
  moreover have "distinct (map inv_id (investments s1))"
    using assms(3) by (simp add: i distinct_map_filter)
  ultimately show ?thesis
    by (simp add: principal_of_def f)
qed


lemma run_investment_calls_conservation:
  assumes "run_investment_calls s userID calls = Inr (s', opened, returned)"
    and "balance_of s userID = Some b"
    and "distinct (map inv_id (investments s))"
  shows "balance_of s' userID = Some (b - sum_list opened + sum_list returned)
         \<and> open_principals s' userID
           = open_principals s userID + sum_list opened - sum_list returned"
  using assms
proof (induction calls arbitrary: s b opened returned)
  case Nil
  then show ?case by simp
next
  case (Cons call calls)
  show ?case
  proof (cases call)
    case (OpenCall investType amount config now)
    from Cons.prems(1) obtain s1 opened' where
      step: "CreateInvestment s userID investType amount config now = Inr s1" and
      rest: "run_investment_calls s1 userID calls = Inr (s', opened', returned)" and
      o: "opened = amount # opened'"
      by (auto simp: OpenCall split: sum.splits prod.splits)
    note st = CreateInvestment_step [OF step Cons.prems(2,3)]
    from Cons.IH [OF rest st(1) st(3)] show ?thesis
      by (simp add: o st(2))
  next
    case (CloseCall investmentID now)
    from Cons.prems(1) obtain s1 returned' where
      step: "DeleteInvestment s userID investmentID now = Inr s1" and
      rest: "run_investment_calls s1 userID calls = Inr (s', opened, returned')" and
      r: "returned = (case principal_of s userID investmentID of Some p \<Rightarrow> p | None \<Rightarrow> 0)
                       # returned'"
      by (auto simp: CloseCall split: sum.splits prod.splits)
    from DeleteInvestment_step [OF step Cons.prems(2,3)] obtain p where
      p: "principal_of s userID investmentID = Some p" and
      b1: "balance_of s1 userID = Some (b + p)" and
      o1: "open_principals s1 userID = open_principals s userID - p" and
      d1: "distinct (map inv_id (investments s1))"
      by blast
    from Cons.IH [OF rest b1 d1] show ?thesis
      by (simp add: r p o1)
  qed
qed

text \<open>
  C7. Conservation. A run of open and close calls of one user on the store, all of them
  successful and nothing else in between, ends with the balance equal to the initial
  balance minus the sum of the opened principals plus the sum of the principals
  returned by the close calls. The principals of the open investments change by the
  initial balance minus the final balance; for a user who starts with no open
  investment they sum to exactly that difference. A close call credits the balance
  with exactly the principal stored in the investment row it deletes. Investment ids
  are a primary key (pairwise different); amounts are exact reals.
\<close>

theorem open_close_conservation:
  assumes "run_investment_calls s userID calls = Inr (s', opened, returned)"
    and "balance_of s userID = Some b"
    and "distinct (map inv_id (investments s))"
  shows "(\<exists>b'. balance_of s' userID = Some b'
            \<and> b' = b - sum_list opened + sum_list returned
            \<and> open_principals s' userID - open_principals s userID = b - b'
            \<and> (getUserInvestments s userID = [] \<longrightarrow> open_principals s' userID = b - b'))
         \<and> (\<forall>investmentID now s1. DeleteInvestment s userID investmentID now = Inr s1
              \<longrightarrow> (\<exists>p. principal_of s userID investmentID = Some p
                      \<and> balance_of s1 userID = Some (b + p)))"
proof -
  have none: "getUserInvestments s userID = [] \<Longrightarrow> open_principals s userID = 0"
    by (simp add: open_principals_def)
  have "\<exists>p. principal_of s userID investmentID = Some p \<and> balance_of s1 userID = Some (b + p)"
    if "DeleteInvestment s userID investmentID now = Inr s1" for investmentID now s1
    using DeleteInvestment_step [OF that assms(2,3)] by blast
  then show ?thesis
    using run_investment_calls_conservation [OF assms] none by auto
qed

theorem open_close_conservation_witness:
  "balance_of investor_db 9 = Some 1000
   \<and> distinct (map inv_id (investments investor_db))
   \<and> getUserInvestments investor_db 9 = []
   \<and> (\<exists>s'. run_investment_calls investor_db 9
               [OpenCall ''low'' 100 low_config 1, OpenCall ''low'' 200 low_config 2,
                CloseCall 1 3, OpenCall ''low'' 50 low_config 4]
             = Inr (s', [100, 200, 50], [100])
           \<and> map inv_amount (getUserInvestments s' 9) = [200, 50]
           \<and> balance_of s' 9 = Some 750
           \<and> open_principals s' 9 = 1000 - 750)"
proof -
  have pre: "balance_of investor_db 9 = Some 1000"
    "distinct (map inv_id (investments investor_db))"
    "getUserInvestments investor_db 9 = []"
    by (simp_all add: investor_db_def eval_defs)
  have "\<exists>s'. run_investment_calls investor_db 9
               [OpenCall ''low'' 100 low_config 1, OpenCall ''low'' 200 low_config 2,
                CloseCall 1 3, OpenCall ''low'' 50 low_config 4]
             = Inr (s', [100, 200, 50], [100])
           \<and> map inv_amount (getUserInvestments s' 9) = [200, 50]"
    by (simp add: investor_db_def low_config_def principal_of_def go_div_def eval_defs)
  then obtain s' where
    run: "run_investment_calls investor_db 9
               [OpenCall ''low'' 100 low_config 1, OpenCall ''low'' 200 low_config 2,
                CloseCall 1 3, OpenCall ''low'' 50 low_config 4]
             = Inr (s', [100, 200, 50], [100])" and
    inv: "map inv_amount (getUserInvestments s' 9) = [200, 50]"
    by (elim exE conjE)
  have bo: "balance_of s' 9 = Some 750" "open_principals s' 9 = 1000 - 750"
    using open_close_conservation [OF run pre(1,2)] pre(3) by auto
  show ?thesis
    by (intro conjI pre exI [of _ "s'"] run inv bo)
qed

section \<open>Reading deposit requests and withdrawals\<close>

text \<open>
  Every row of \<^verbatim>\<open>deposit_requests\<close> fails to scan, so \<^verbatim>\<open>GetDepositRequest\<close> never
  returns a request and \<^verbatim>\<open>GetDepositsOfUser\<close> succeeds only for a user without a
  deposit request; the rows of \<^verbatim>\<open>withdrawals\<close> scan.
\<close>

lemma scan_deposit_fails: "scan_deposit d = Inl ErrScan"
  by (simp add: scan_deposit_def deposit_requests_created_at_def)

lemma GetDepositRequest_fails:
  "GetDepositRequest s did
     = Inl (if find (\<lambda>d. dep_id d = did) (deposit_requests s) = None then ErrNoRows else ErrScan)"
  by (simp add: GetDepositRequest_def scan_deposit_fails split: option.splits)

lemma scan_rows_deposit: "scan_rows scan_deposit rows = (if rows = [] then Inr [] else Inl ErrScan)"
  by (cases rows) (simp_all add: scan_deposit_fails)

lemma GetDepositsOfUser_cases:
  "GetDepositsOfUser s userID
     = (if filter (\<lambda>d. dep_user_id d = userID) (deposit_requests s) = [] then Inr []
        else Inl ErrScan)"
  by (simp add: GetDepositsOfUser_def scan_rows_deposit)

lemma scan_rows_withdrawal: "scan_rows scan_withdrawal rows = Inr rows"
  by (induction rows) (simp_all add: scan_withdrawal_def withdrawals_created_at_def)

lemma GetWithdrawalRequestsByUser_rows:
  "GetWithdrawalRequestsByUser s userID
     = Inr (order_by_desc w_created_at (filter (\<lambda>w. w_user_id w = userID) (withdrawals s)))"
  by (simp add: GetWithdrawalRequestsByUser_def scan_rows_withdrawal)

lemma ConfirmDeposit_unchanged:
  "snd (ConfirmDeposit s pubKey depositID walletAddress check) = s
   \<and> \<not> is_success (fst (ConfirmDeposit s pubKey depositID walletAddress check))"
  by (simp add: ConfirmDeposit_def GetDepositRequest_fails split: sum.splits)

lemma ConfirmDeposit_not_found:
  assumes "pubKey \<noteq> []" and "depositID \<noteq> 0"
    and "find (\<lambda>r. u_pub_key r = pubKey) (users s) = Some owner"
  shows "ConfirmDeposit s pubKey depositID walletAddress check
           = (Failure 404 DepositRequestNotFound, s)"
  using assms
  by (simp add: ConfirmDeposit_def GetUserByPubKey_def GetDepositRequest_fails)

lemma WithdrawFunds_deposit_rows:
  assumes "pubKey \<noteq> []" and "0 < amount"
    and "find (\<lambda>r. u_pub_key r = pubKey) (users s) = Some r"
    and "d \<in> set (deposit_requests s)" and "dep_user_id d = u_id r"
  shows "WithdrawFunds s pubKey amount transfer address now = (Failure 404 UserNotFoundError, s)"
proof -
  have "filter (\<lambda>d. dep_user_id d = u_id r) (deposit_requests s) \<noteq> []"
    using assms(4,5) by (auto simp: filter_empty_conv)
  then show ?thesis
    using assms(1-3)
    by (simp add: WithdrawFunds_def GetUserByPubKey_def scan_user_def GetDepositsOfUser_cases)
qed

section \<open>Deposit confirmation\<close>

text \<open>
  C2. The specification: a second confirm on a completed deposit request is rejected
  with AlreadyProcessed and leaves the balance unchanged; over any sequence of confirm
  calls the deposit amount is credited exactly once, and a completed request stays
  completed. \<^verbatim>\<open>ConfirmDeposit\<close> has the check (\<open>DepositNotPending\<close>) and the credit,
  but it reads the request through \<^verbatim>\<open>GetDepositRequest\<close>, which fails on every
  existing row (\<^verbatim>\<open>created_at\<close> is declared \<^verbatim>\<open>INTEGER\<close> and read into a
  \<^verbatim>\<open>time.Time\<close>). For user 7 and request 3 of 100 the owner's confirm is answered 404
  \<open>DepositRequestNotFound\<close> with the store unchanged, both when the request is
  completed (where AlreadyProcessed is specified) and when it is pending and the
  payment has been found (where the credit is specified): the balance stays 5.
\<close>

theorem ConfirmDeposit_completed_not_found:
  "find (\<lambda>d. dep_id d = 3) (deposit_requests completed_deposit_db)
     = Some (new_deposit 3 7 100 ''completed'')
   \<and> ConfirmDeposit completed_deposit_db ''k'' 3 ''addr'' (Received True)
     = (Failure 404 DepositRequestNotFound, completed_deposit_db)
   \<and> find (\<lambda>d. dep_id d = 3) (deposit_requests pending_deposit_db)
     = Some (new_deposit 3 7 100 ''pending'')
   \<and> ConfirmDeposit pending_deposit_db ''k'' 3 ''addr'' (Received True)
     = (Failure 404 DepositRequestNotFound, pending_deposit_db)
   \<and> balance_of pending_deposit_db 7 = Some 5"
  by (simp add: ConfirmDeposit_def completed_deposit_db_def pending_deposit_db_def eval_defs)

section \<open>Withdrawal settlement\<close>



section \<open>Non-negative balances\<close>

lemma update_balance_nonneg:
  assumes "list_all (\<lambda>r. 0 \<le> u_balance r) rows"
    and "\<And>r. r \<in> set rows \<Longrightarrow> u_id r = uid \<Longrightarrow> 0 \<le> f (u_balance r)"
  shows "list_all (\<lambda>r. 0 \<le> u_balance r) (update_balance f uid rows)"
  using assms by (auto simp: list_all_iff update_balance_def)

lemma update_balance_ids: "map u_id (update_balance f uid rows) = map u_id rows"
  by (induction rows) (simp_all add: update_balance_def)

lemma find_unique:
  assumes "distinct (map u_id rows)" and "find (\<lambda>r. u_id r = uid) rows = Some r"
    and "r' \<in> set rows" and "u_id r' = uid"
  shows "r' = r"
proof -
  from assms(2) have "r \<in> set rows" "u_id r = uid"
    by (auto simp: find_Some_iff)
  with assms(1,3,4) show ?thesis
    by (auto simp: distinct_map dest: inj_onD)
qed

lemma CreateInvestment_ok:
  assumes "CreateInvestment s userID investType amount config now = Inr s'"
    and "0 \<le> amount" and "balances_nonneg s" and "recorded_amounts_ok s"
  shows "balances_nonneg s' \<and> recorded_amounts_ok s'"
proof -
  from assms(1) obtain r where
    f: "find (\<lambda>r. u_id r = userID) (users s) = Some r" and
    b: "amount \<le> u_balance r" and
    u: "users s' = update_balance (\<lambda>b. b - amount) userID (users s)" and
    i: "investments s' = investments s @
          [\<lparr>inv_id = next_rowid (investments_seq s) (map inv_id (investments s)),
            inv_user_id = userID, inv_type = investType,
            inv_amount = amount, inv_created_at = now\<rparr>]" and
    d: "deposit_requests s' = deposit_requests s"
    by (auto simp: CreateInvestment_def Let_def split: option.splits if_splits)
  have "0 \<le> u_balance r' - amount" if "r' \<in> set (users s)" "u_id r' = userID" for r'
    using find_unique [OF _ f that] assms(4) b by (simp add: recorded_amounts_ok_def)
  then have "balances_nonneg s'"
    using assms(3) by (simp add: balances_nonneg_def u update_balance_nonneg)
  then show ?thesis
    using assms(2,4) by (simp add: recorded_amounts_ok_def u i d update_balance_ids)
qed

lemma DeleteInvestment_ok:
  assumes "DeleteInvestment s userID investmentID now = Inr s'"
    and "balances_nonneg s" and "recorded_amounts_ok s"
  shows "balances_nonneg s' \<and> recorded_amounts_ok s'"
proof -
  from assms(1) obtain x where
    f: "find (\<lambda>i. inv_id i = investmentID \<and> inv_user_id i = userID) (investments s) = Some x" and
    u: "users s' = update_balance (\<lambda>b. b + inv_amount x) userID (users s)" and
    i: "investments s'
          = filter (\<lambda>i. \<not> (inv_id i = investmentID \<and> inv_user_id i = userID)) (investments s)" and
    d: "deposit_requests s' = deposit_requests s"
    by (auto simp: DeleteInvestment_def Let_def split: option.splits if_splits)
  from f have "x \<in> set (investments s)"
    by (auto simp: find_Some_iff)
  then have x: "0 \<le> inv_amount x"
    using assms(3) by (simp add: recorded_amounts_ok_def list_all_iff)
  have "balances_nonneg s'"
    using assms(2) x by (auto simp: balances_nonneg_def u list_all_iff update_balance_def)
  then show ?thesis
    using assms(3) by (auto simp: recorded_amounts_ok_def u i d update_balance_ids list_all_iff)
qed

lemma users_updated_ok:
  assumes "users s' = update_balance f uid (users s)"
    and "investments s' = investments s" and "deposit_requests s' = deposit_requests s"
    and "\<And>b. 0 \<le> b \<Longrightarrow> 0 \<le> f b"
    and "balances_nonneg s" and "recorded_amounts_ok s"
  shows "balances_nonneg s' \<and> recorded_amounts_ok s'"
proof -
  have "list_all (\<lambda>r. 0 \<le> u_balance r) (update_balance f uid (users s))"
    using assms(4,5) by (intro update_balance_nonneg) (auto simp: balances_nonneg_def list_all_iff)
  then show ?thesis
    using assms(6)
    by (simp add: balances_nonneg_def recorded_amounts_ok_def assms(1,2,3) update_balance_ids)
qed

lemma UpdateUserBalance_ok:
  assumes "0 \<le> newBalance" and "balances_nonneg s \<and> recorded_amounts_ok s"
  shows "balances_nonneg (UpdateUserBalance s userID newBalance)
         \<and> recorded_amounts_ok (UpdateUserBalance s userID newBalance)"
  using assms by (intro users_updated_ok [of _ "\<lambda>_. newBalance" userID s])
    (simp_all add: UpdateUserBalance_def)

lemma AddReferralEarning_ok:
  assumes "0 \<le> amount" and "balances_nonneg s \<and> recorded_amounts_ok s"
  shows "balances_nonneg (AddReferralEarning s referrerID referredID amount level now)
         \<and> recorded_amounts_ok (AddReferralEarning s referrerID referredID amount level now)"
  using assms by (intro users_updated_ok [of _ "\<lambda>b. b + amount" referrerID s])
    (simp_all add: AddReferralEarning_def Let_def)

lemma frame_ok:
  assumes "users s' = users s" and "investments s' = investments s"
    and "deposit_requests s' = deposit_requests s"
    and "balances_nonneg s \<and> recorded_amounts_ok s"
  shows "balances_nonneg s' \<and> recorded_amounts_ok s'"
  using assms by (simp add: balances_nonneg_def recorded_amounts_ok_def)

lemma add_earnings_ok:
  assumes "0 \<le> profitAmount * Level1Percent (Referral cfg)"
    and "0 \<le> profitAmount * Level2Percent (Referral cfg)"
    and "0 \<le> profitAmount * Level3Percent (Referral cfg)"
    and "balances_nonneg s \<and> recorded_amounts_ok s"
  shows "balances_nonneg (add_earnings cfg userID profitAmount now idx chain s)
         \<and> recorded_amounts_ok (add_earnings cfg userID profitAmount now idx chain s)"
  using assms(4)
proof (induction chain arbitrary: idx s)
  case Nil
  then show ?case by simp
next
  case (Cons referrerID rest)
  have e: "0 \<le> profitAmount * (level_percent cfg (idx + 1) / 100)"
    using assms(1-3) by (simp add: level_percent_def)
  show ?case
    using Cons.IH [OF AddReferralEarning_ok [OF e Cons.prems]]
    by (simp add: Let_def)
qed

lemma Handler_CreateInvestment_ok:
  assumes "balances_nonneg s \<and> recorded_amounts_ok s"
  shows "balances_nonneg (snd (Handler_CreateInvestment cfg s pubKey investType amount now))
         \<and> recorded_amounts_ok (snd (Handler_CreateInvestment cfg s pubKey investType amount now))"
  using assms
  by (auto simp: Handler_CreateInvestment_def split: option.splits sum.splits
      dest: CreateInvestment_ok)

lemma Handler_DeleteInvestment_ok:
  assumes "balances_nonneg s \<and> recorded_amounts_ok s"
  shows "balances_nonneg (snd (Handler_DeleteInvestment s pubKey investmentID now))
         \<and> recorded_amounts_ok (snd (Handler_DeleteInvestment s pubKey investmentID now))"
  using assms
  by (auto simp: Handler_DeleteInvestment_def split: sum.splits dest: DeleteInvestment_ok)

lemma ConfirmDeposit_ok:
  assumes "balances_nonneg s \<and> recorded_amounts_ok s"
  shows "balances_nonneg (snd (ConfirmDeposit s pubKey depositID walletAddress check))
         \<and> recorded_amounts_ok (snd (ConfirmDeposit s pubKey depositID walletAddress check))"
  using assms ConfirmDeposit_unchanged [of s pubKey depositID walletAddress check] by simp

lemma WithdrawFunds_effect:
  "investments (snd (WithdrawFunds s pubKey amount transfer address now)) = investments s
   \<and> deposit_requests (snd (WithdrawFunds s pubKey amount transfer address now))
       = deposit_requests s
   \<and> (users (snd (WithdrawFunds s pubKey amount transfer address now)) = users s
      \<or> (\<exists>user. GetUserByPubKey s pubKey = Inr user \<and> \<not> Balance user < amount
            \<and> users (snd (WithdrawFunds s pubKey amount transfer address now))
                = update_balance (\<lambda>_. Balance user - amount) (ID user) (users s)))"
  by (auto simp: WithdrawFunds_def Let_def UpdateUserBalance_def CreateWithdrawalRequest_def
      ConfirmWithdrawalRequest_def UpdateWithdrawalTxHash_def AddOperation_def
      split: sum.splits option.splits list.splits)

lemma WithdrawFunds_ok:
  assumes "balances_nonneg s \<and> recorded_amounts_ok s"
  shows "balances_nonneg (snd (WithdrawFunds s pubKey amount transfer address now))
         \<and> recorded_amounts_ok (snd (WithdrawFunds s pubKey amount transfer address now))"
proof -
  let ?s' = "snd (WithdrawFunds s pubKey amount transfer address now)"
  note eff = WithdrawFunds_effect [of s pubKey amount transfer address now]
  note i = eff [THEN conjunct1]
  note d = eff [THEN conjunct2, THEN conjunct1]
  note u = eff [THEN conjunct2, THEN conjunct2]
  from u show ?thesis
  proof (elim disjE exE conjE)
    assume same: "users ?s' = users s"
    show ?thesis
      by (rule frame_ok [OF same i d assms])
  next
    fix user
    assume nb: "\<not> Balance user < amount"
      and us: "users ?s' = update_balance (\<lambda>_. Balance user - amount) (ID user) (users s)"
    have "0 \<le> Balance user - amount" using nb by simp
    then show ?thesis
      using assms by (intro users_updated_ok [OF us i d]) simp_all
  qed
qed

lemma ProcessReferralEarnings_ok:
  assumes "earnings_nonneg cfg (DistributeReferral userID profitAmount)"
    and "balances_nonneg s \<and> recorded_amounts_ok s"
    and "ProcessReferralEarnings cfg s userID profitAmount now = Inr s'"
  shows "balances_nonneg s' \<and> recorded_amounts_ok s'"
  using assms add_earnings_ok [of profitAmount cfg s userID now 0]
  by (auto simp: ProcessReferralEarnings_def split: sum.splits)

text \<open>
  C4. No negative balance. The specification: from any store in which every balance is at least
  0, each of open investment, close investment, confirm deposit, withdraw and referral
  distribution leaves every balance at least 0, whether it succeeds or fails. The
  referral distribution credits \<open>profit * percent / 100\<close> without looking at its
  sign: for a profit of -1000 and the README percents the referrer with balance 50
  ends at -20.
\<close>

theorem distribute_negative_profit:
  "balances_nonneg referral_db \<and> recorded_amounts_ok referral_db
   \<and> balance_of referral_db 5 = Some 50
   \<and> balance_of (handle readme_config 0 referral_db (DistributeReferral 6 (- 1000))) 5 = Some (- 20)
   \<and> \<not> balances_nonneg (handle readme_config 0 referral_db (DistributeReferral 6 (- 1000)))"
  by (simp add: balances_nonneg_def recorded_amounts_ok_def referral_db_def
      ProcessReferralEarnings_def level_percent_def numeral_3_eq_3 eval_defs)

text \<open>
  C4 as amended. In a store where user ids are pairwise different and no recorded
  investment or deposit amount is negative, and with every balance at least 0: open
  investment, close investment, confirm deposit and withdraw, successful or not, and a
  referral distribution whose earnings \<open>profit * level percent\<close> are not negative, leave
  every balance at least 0 and keep the store in that shape. The debits (open,
  withdraw) are rejected when they exceed the balance.
\<close>

theorem nonnegative_balances_preserved:
  assumes "balances_nonneg s" and "recorded_amounts_ok s" and "earnings_nonneg cfg req"
  shows "balances_nonneg (handle cfg now s req) \<and> recorded_amounts_ok (handle cfg now s req)"
proof (cases req)
  case (OpenInvestment pubKey investType amount)
  then show ?thesis
    using Handler_CreateInvestment_ok [of s cfg pubKey investType amount now] assms(1,2) by simp
next
  case (CloseInvestment pubKey investmentID)
  then show ?thesis
    using Handler_DeleteInvestment_ok [of s pubKey investmentID now] assms(1,2) by simp
next
  case (ConfirmDepositRequest pubKey depositID walletAddress check)
  then show ?thesis
    using ConfirmDeposit_ok [of s pubKey depositID walletAddress check] assms(1,2) by simp
next
  case (Withdraw pubKey amount transfer address)
  then show ?thesis
    using WithdrawFunds_ok [of s pubKey amount transfer address now] assms(1,2) by simp
next
  case (DistributeReferral userID profitAmount)
  then show ?thesis
    using ProcessReferralEarnings_ok [of cfg userID profitAmount s now] assms
    by (auto split: sum.splits)
qed

theorem nonnegative_balances_preserved_witness:
  "balances_nonneg referral_db \<and> recorded_amounts_ok referral_db
   \<and> earnings_nonneg readme_config (DistributeReferral 6 200)
   \<and> balances_nonneg (handle readme_config 0 referral_db (DistributeReferral 6 200))
   \<and> balance_of (handle readme_config 0 referral_db (DistributeReferral 6 200)) 5 = Some 64
   \<and> earnings_nonneg readme_config (OpenInvestment ''e'' ''low'' 80)
   \<and> Handler_CreateInvestment readme_config referral_db ''e'' ''low'' 80 0
     = (Failure 400 (InsufficientBalance 50 80), referral_db)
   \<and> balances_nonneg (handle readme_config 0 referral_db (OpenInvestment ''e'' ''low'' 80))"
proof -
  have pre: "balances_nonneg referral_db" "recorded_amounts_ok referral_db"
    by (simp_all add: balances_nonneg_def recorded_amounts_ok_def referral_db_def eval_defs)
  have e1: "earnings_nonneg readme_config (DistributeReferral 6 200)"
    by (simp add: readme_config_def)
  have e2: "earnings_nonneg readme_config (OpenInvestment ''e'' ''low'' 80)"
    by simp
  have b: "balance_of (handle readme_config 0 referral_db (DistributeReferral 6 200)) 5 = Some 64"
    by (simp add: referral_db_def ProcessReferralEarnings_def level_percent_def
        numeral_3_eq_3 eval_defs)
  have r: "Handler_CreateInvestment readme_config referral_db ''e'' ''low'' 80 0
     = (Failure 400 (InsufficientBalance 50 80), referral_db)"
    by (simp add: Handler_CreateInvestment_def referral_db_def eval_defs)
  note t1 = nonnegative_balances_preserved [OF pre e1, of 0, THEN conjunct1]
  note t2 = nonnegative_balances_preserved [OF pre e2, of 0, THEN conjunct1]
  show ?thesis
    by (intro conjI pre e1 e2 b r t1 t2)
qed

section \<open>The withdrawal check on the rows it reads\<close>

lemma sum_deposits_completed:
  "list_all (\<lambda>d. dep_status d = ''completed'') ds
   \<Longrightarrow> sum_deposits acc ds = Some (acc + sum_list (map dep_amount ds))"
  by (induction ds arbitrary: acc) simp_all

lemma sum_withdrawals_completed:
  "list_all (\<lambda>w. w_status w = ''completed'') ws
   \<Longrightarrow> sum_withdrawals acc ws = Some (acc + sum_list (map w_amount ws))"
  by (induction ws arbitrary: acc) simp_all

text \<open>
  The check of \<^verbatim>\<open>WithdrawFunds\<close> when both reads succeed: with \<open>D\<close> the sum of the
  deposit requests read and \<open>W\<close> the sum of the rows read from \<^verbatim>\<open>withdrawals\<close> (all
  completed), a request above \<open>0.8 * D - W\<close> or above the balance is rejected with
  \<open>InsufficientBalance\<close> and changes nothing.
\<close>

lemma WithdrawFunds_ceiling_check:
  assumes "pubKey \<noteq> []" and "0 < amount" and "GetUserByPubKey s pubKey = Inr user"
    and "GetDepositsOfUser s (ID user) = Inr deposits"
    and "GetWithdrawalRequestsByUser s (ID user) = Inr ws"
    and "list_all (\<lambda>d. dep_status d = ''completed'') deposits"
    and "list_all (\<lambda>w. w_status w = ''completed'') ws"
    and "D = sum_list (map dep_amount deposits)"
    and "W = sum_list (map w_amount ws)"
    and "0.8 * D - W < amount \<or> Balance user < amount"
  shows "\<exists>shown. WithdrawFunds s pubKey amount transfer address now
                  = (Failure 400 (InsufficientBalance shown amount), s)"
  using assms(1-5,10) sum_deposits_completed [OF assms(6), of 0]
    sum_withdrawals_completed [OF assms(7), of 0]
  by (auto simp: WithdrawFunds_def Let_def assms(8,9) [symmetric])

end
